theory Spec2Isabelle
  imports Complex_Main
begin

section \<open>JavaScript values\<close>

text \<open>
  A JavaScript number is modelled as a \<^typ>\<open>real\<close> and a field that may be missing,
  \<^verbatim>\<open>undefined\<close> or \<^verbatim>\<open>null\<close> as an \<^typ>\<open>'a option\<close>. The tests
  \<^verbatim>\<open>if (x)\<close>, \<^verbatim>\<open>!x\<close> and \<^verbatim>\<open>x || d\<close> of the source are truthiness tests:
  a number is falsy when it is 0, a string when it is empty, a missing value always.
  Times are integers: milliseconds for \<^verbatim>\<open>new Date()\<close>, and a store timestamp is a
  pair of seconds and nanoseconds.
\<close>

definition truthy_num :: "real option \<Rightarrow> bool" where
  "truthy_num v = (case v of None \<Rightarrow> False | Some x \<Rightarrow> x \<noteq> 0)"

definition num_or :: "real option \<Rightarrow> real \<Rightarrow> real" where
  "num_or v d = (case v of None \<Rightarrow> d | Some x \<Rightarrow> if x = 0 then d else x)"

definition str_or :: "string option \<Rightarrow> string \<Rightarrow> string" where
  "str_or v d = (case v of None \<Rightarrow> d | Some s \<Rightarrow> if s = [] then d else s)"

text \<open>Reading a number that a guard has already found truthy.\<close>

definition num :: "real option \<Rightarrow> real" where
  "num v = (case v of None \<Rightarrow> 0 | Some x \<Rightarrow> x)"

record fs_timestamp =
  seconds :: int
  nanoseconds :: int

datatype time_value = Timestamp fs_timestamp | Date int

section \<open>Documents of the two collections\<close>

text \<open>
  The fields that fleet documents (collection \<^verbatim>\<open>buses\<close>) and presence documents
  (collection \<^verbatim>\<open>driverLocations\<close>) share, then each kind of document.
\<close>

record doc =
  docId :: string
  latitude :: "real option"
  longitude :: "real option"
  route :: "string option"
  speed :: "real option"
  heading :: "real option"

record bus = doc +
  busId :: "string option"
  status :: "string option"
  lastUpdated :: "time_value option"

record driver = doc +
  userId :: "string option"
  email :: "string option"
  displayName :: "string option"
  busNumber :: "string option"
  accuracy :: "real option"
  timestamp :: "fs_timestamp option"
  isActive :: "bool option"
  lastSeen :: "fs_timestamp option"
  createdAt :: "fs_timestamp option"

text \<open>The guard \<^verbatim>\<open>x.latitude && x.longitude\<close>, written four times in the source.\<close>

definition hasCoordinates :: "'a doc_scheme \<Rightarrow> bool" where
  "hasCoordinates x = (truthy_num (latitude x) \<and> truthy_num (longitude x))"

section \<open>busService.js: the fleet subscription\<close>

definition demoBus1 :: "int \<Rightarrow> bus" where
  "demoBus1 now = \<lparr> docId = ''demo-bus-1'', latitude = Some 40.7128, longitude = Some (- 74.0060),
     route = Some ''Route 1 - Downtown'', speed = Some 25, heading = Some 90,
     busId = Some ''B001'', status = Some ''active'', lastUpdated = Some (Date now) \<rparr>"

definition demoBus2 :: "int \<Rightarrow> bus" where
  "demoBus2 now = \<lparr> docId = ''demo-bus-2'', latitude = Some 40.7589, longitude = Some (- 73.9851),
     route = Some ''Route 2 - Uptown'', speed = Some 30, heading = Some 180,
     busId = Some ''B002'', status = Some ''active'', lastUpdated = Some (Date now) \<rparr>"

definition demoBus3 :: "int \<Rightarrow> bus" where
  "demoBus3 now = \<lparr> docId = ''demo-bus-3'', latitude = Some 40.7505, longitude = Some (- 73.9934),
     route = Some ''Route 3 - Crosstown'', speed = Some 0, heading = Some 0,
     busId = Some ''B003'', status = Some ''maintenance'', lastUpdated = Some (Date now) \<rparr>"

text \<open>The literal of the empty-snapshot branch, and the literal of the error handler.\<close>

definition demoBuses :: "int \<Rightarrow> bus list" where
  "demoBuses now = [demoBus1 now, demoBus2 now, demoBus3 now]"

definition demoBusesOnError :: "int \<Rightarrow> bus list" where
  "demoBusesOnError now = [demoBus1 now]"

text \<open>\<^verbatim>\<open>a.lastUpdated?.seconds || 0\<close>: a \<^verbatim>\<open>Date\<close> has no field \<^verbatim>\<open>seconds\<close>.\<close>

definition lastUpdatedSeconds :: "bus \<Rightarrow> int" where
  "lastUpdatedSeconds b =
     (case lastUpdated b of
        None \<Rightarrow> 0
      | Some (Date _) \<Rightarrow> 0
      | Some (Timestamp t) \<Rightarrow> seconds t)"

text \<open>
  What the subscription passes to its subscriber. A snapshot event carries the documents
  of the collection, an error event the error; in each branch of the source the callback
  is called exactly once, and the value of the function is the list it is called with.
  \<^verbatim>\<open>Array.prototype.sort\<close> is stable, as \<^const>\<open>sort_key\<close> is; the comparator
  \<^verbatim>\<open>bTime - aTime\<close> orders by descending seconds.
\<close>

datatype 'e snapshot_event = Snapshot "bus list" | SnapshotError 'e

definition subscribeToBusLocations :: "'e snapshot_event \<Rightarrow> int \<Rightarrow> bus list" where
  "subscribeToBusLocations ev now =
     (case ev of
        Snapshot snapshot \<Rightarrow>
          (let buses = filter (\<lambda>busData. truthy_num (latitude busData) \<and> truthy_num (longitude busData)) snapshot
           in if length buses = 0 then demoBuses now
              else sort_key (\<lambda>b. - lastUpdatedSeconds b) buses)
      | SnapshotError error \<Rightarrow> demoBusesOnError now)"

section \<open>locationService.js: the presence subscription\<close>

text \<open>
  \<^verbatim>\<open>listenToDriverLocations\<close>: the query keeps the documents whose field
  \<^verbatim>\<open>isActive\<close> is \<^verbatim>\<open>true\<close>, and the subscriber receives every one of them.
\<close>

definition listenToDriverLocations :: "driver list \<Rightarrow> driver list" where
  "listenToDriverLocations collection = filter (\<lambda>d. isActive d = Some True) collection"

section \<open>BusMap: centre of the map and markers\<close>

datatype location = BusLocation bus | DriverLocation driver

fun loc_latitude :: "location \<Rightarrow> real option" where
  "loc_latitude (BusLocation b) = latitude b"
| "loc_latitude (DriverLocation d) = latitude d"

fun loc_longitude :: "location \<Rightarrow> real option" where
  "loc_longitude (BusLocation b) = longitude b"
| "loc_longitude (DriverLocation d) = longitude d"

definition defaultCenter :: "real \<times> real" where
  "defaultCenter = (40.7128, - 74.0060)"

definition allLocations :: "bus list \<Rightarrow> driver list \<Rightarrow> location list" where
  "allLocations buses driverLocations =
     map BusLocation (filter (\<lambda>bus. truthy_num (latitude bus) \<and> truthy_num (longitude bus)) buses) @
     map DriverLocation
       (filter (\<lambda>driver. truthy_num (latitude driver) \<and> truthy_num (longitude driver)) driverLocations)"

definition getMapCenter :: "bus list \<Rightarrow> driver list \<Rightarrow> real \<times> real" where
  "getMapCenter buses driverLocations =
     (let locs = allLocations buses driverLocations
      in if length locs = 0 then defaultCenter
         else (foldl (\<lambda>sum loc. sum + num (loc_latitude loc)) 0 locs / real (length locs),
               foldl (\<lambda>sum loc. sum + num (loc_longitude loc)) 0 locs / real (length locs)))"

text \<open>
  \<^verbatim>\<open>isRecent\<close>: the age of the store-assigned \<^verbatim>\<open>timestamp\<close> in milliseconds against
  300000; a driver without timestamp is not recent. The staleness flag is its negation.
\<close>

definition isRecent :: "driver \<Rightarrow> int \<Rightarrow> bool" where
  "isRecent driver now =
     (case timestamp driver of
        None \<Rightarrow> False
      | Some ts \<Rightarrow> now - seconds ts * 1000 < 300000)"

definition isStale :: "driver \<Rightarrow> int \<Rightarrow> bool" where
  "isStale driver now = (\<not> isRecent driver now)"

text \<open>
  The markers the map renders: a bus or a driver without truthy coordinates renders
  nothing, every other one a marker; a driver's marker carries \<^verbatim>\<open>isRecent\<close> for its icon.
\<close>

datatype marker = BusMarker bus | DriverMarker driver bool

definition busMarkers :: "bus list \<Rightarrow> marker list" where
  "busMarkers buses =
     concat (map (\<lambda>bus. if \<not> truthy_num (latitude bus) \<or> \<not> truthy_num (longitude bus) then []
                         else [BusMarker bus]) buses)"

definition driverMarkers :: "driver list \<Rightarrow> int \<Rightarrow> marker list" where
  "driverMarkers driverLocations now =
     concat (map (\<lambda>driver. if \<not> truthy_num (latitude driver) \<or> \<not> truthy_num (longitude driver) then []
                            else [DriverMarker driver (isRecent driver now)]) driverLocations)"

definition BusMap :: "bus list \<Rightarrow> driver list \<Rightarrow> int \<Rightarrow> marker list" where
  "BusMap buses driverLocations now = busMarkers buses @ driverMarkers driverLocations now"

section \<open>The platform and the store, as the session sees them\<close>

text \<open>
  A position of the Geolocation API: \<^verbatim>\<open>coords.heading\<close> and \<^verbatim>\<open>coords.speed\<close> may be
  \<^verbatim>\<open>null\<close>. A position error carries a numeric code; the service replaces it by a plain
  \<^verbatim>\<open>Error\<close> built from a message, an object that has a \<^verbatim>\<open>message\<close> and neither a
  \<^verbatim>\<open>code\<close> nor a \<^verbatim>\<open>PERMISSION_DENIED\<close> property.
\<close>

record position =
  coords_latitude :: real
  coords_longitude :: real
  coords_accuracy :: real
  coords_heading :: "real option"
  coords_speed :: "real option"
  position_timestamp :: int

definition PERMISSION_DENIED :: nat where "PERMISSION_DENIED = 1"
definition POSITION_UNAVAILABLE :: nat where "POSITION_UNAVAILABLE = 2"
definition TIMEOUT :: nat where "TIMEOUT = 3"

definition errorMessage :: "nat \<Rightarrow> string" where
  "errorMessage errorCode =
     (if errorCode = PERMISSION_DENIED then ''Location access denied by user''
      else if errorCode = POSITION_UNAVAILABLE then ''Location information unavailable''
      else if errorCode = TIMEOUT then ''Location request timed out''
      else ''Unknown location error'')"

record js_error =
  message :: string
  error_code :: "nat option"
  error_PERMISSION_DENIED :: "nat option"

definition new_Error :: "string \<Rightarrow> js_error" where
  "new_Error msg = \<lparr> message = msg, error_code = None, error_PERMISSION_DENIED = None \<rparr>"

text \<open>
  The outcomes the platform and the store decide: of a one-shot position fetch, and of
  a write (\<^verbatim>\<open>setDoc\<close>, \<^verbatim>\<open>deleteDoc\<close>), rejected with the message of its error.
\<close>

datatype geo_result = GeoSuccess position | GeoFailure nat

datatype write_result = WriteOk | WriteRejected string

text \<open>
  Every call the session makes to the platform or to the store is logged in order, so
  that "no position request" and "no write" are statements about the log.
\<close>

datatype request =
    GetCurrentPosition
  | WatchPosition nat
  | ClearWatch nat
  | ClearInterval nat
  | SetDoc string
  | SetDocMerge string position
  | DeleteDoc string

text \<open>
  The world outside the hook: the collection \<^verbatim>\<open>driverLocations\<close> keyed by document id,
  the watch registrations of the Geolocation API (identifiers are positive and fresh),
  the log, and the merge writes issued by watch callbacks whose promise has not resolved
  yet, oldest first, each with the outcome it will resolve to. The store commits writes
  in the order they are issued, so a write takes effect on \<open>store\<close> when it is issued and
  its outcome reaches the caller when it resolves.
\<close>

record world =
  store :: "string \<rightharpoonup> driver"
  watches :: "nat list"
  lastWatchId :: nat
  requests :: "request list"
  pendingWrites :: "write_result list"

definition call :: "request \<Rightarrow> world \<Rightarrow> world" where
  "call r w = w\<lparr> requests := requests w @ [r] \<rparr>"

definition clearWatch :: "nat \<Rightarrow> world \<Rightarrow> world" where
  "clearWatch watchId w = call (ClearWatch watchId) (w\<lparr> watches := removeAll watchId (watches w) \<rparr>)"

definition clearInterval :: "nat \<Rightarrow> world \<Rightarrow> world" where
  "clearInterval intervalId w = call (ClearInterval intervalId) w"

section \<open>locationService.js\<close>

text \<open>What the callers pass: the signed-in user and the fields read from the profile
  (\<^verbatim>\<open>userProfile.driverInfo?.busNumber\<close> is missing when \<^verbatim>\<open>driverInfo\<close> is).\<close>

record user =
  uid :: string
  user_email :: "string option"

record userProfile =
  profile_displayName :: "string option"
  driverInfo_busNumber :: "string option"
  driverInfo_route :: "string option"

datatype start_result = Started position | StartFailed string

datatype outcome = Succeeded | Failed "string option"

text \<open>The full-field document of \<^verbatim>\<open>startLocationSharing\<close>; \<open>now\<close> is the commit time the
  store puts in place of each \<^verbatim>\<open>serverTimestamp()\<close>.\<close>

definition locationData :: "string \<Rightarrow> string option \<Rightarrow> userProfile \<Rightarrow> position \<Rightarrow> fs_timestamp \<Rightarrow> driver" where
  "locationData user_id user_mail info pos now =
     \<lparr> docId = user_id,
       latitude = Some (coords_latitude pos),
       longitude = Some (coords_longitude pos),
       route = Some (str_or (driverInfo_route info) ''Unknown Route''),
       speed = Some (num_or (coords_speed pos) 0),
       heading = Some (num_or (coords_heading pos) 0),
       userId = Some user_id,
       email = user_mail,
       displayName = Some (str_or (profile_displayName info) ''Driver''),
       busNumber = Some (str_or (driverInfo_busNumber info) ''Unknown''),
       accuracy = Some (coords_accuracy pos),
       timestamp = Some now,
       isActive = Some True,
       lastSeen = Some now,
       createdAt = Some now \<rparr>"

text \<open>\<^verbatim>\<open>setDoc(ref, updateData, { merge: true })\<close>: the fields of \<^verbatim>\<open>updateData\<close> replace those
  of the document; a document that does not exist is created with these fields only.\<close>

definition mergeUpdate :: "string \<Rightarrow> position \<Rightarrow> fs_timestamp \<Rightarrow> driver option \<Rightarrow> driver" where
  "mergeUpdate user_id pos now old =
     (let base = (case old of
                    Some d \<Rightarrow> d
                  | None \<Rightarrow> \<lparr> docId = user_id, latitude = None, longitude = None, route = None,
                              speed = None, heading = None, userId = None, email = None,
                              displayName = None, busNumber = None, accuracy = None,
                              timestamp = None, isActive = None, lastSeen = None,
                              createdAt = None \<rparr>)
      in base\<lparr> latitude := Some (coords_latitude pos),
               longitude := Some (coords_longitude pos),
               accuracy := Some (coords_accuracy pos),
               heading := Some (num_or (coords_heading pos) 0),
               speed := Some (num_or (coords_speed pos) 0),
               timestamp := Some now,
               lastSeen := Some now,
               isActive := Some True \<rparr>)"

text \<open>The environment of one call of \<^verbatim>\<open>startSharing\<close>: whether the browser has a
  geolocation object, and the outcome of each request the call may make.\<close>

record start_env =
  geolocation :: bool
  permissionFetch :: geo_result
  positionFetch :: geo_result
  createWrite :: write_result
  commitTime :: fs_timestamp

definition requestLocationPermission :: "start_env \<Rightarrow> world \<Rightarrow> outcome \<times> world" where
  "requestLocationPermission env w =
     (if \<not> geolocation env then (Failed (Some ''Geolocation is not supported by this browser''), w)
      else (case permissionFetch env of
              GeoSuccess pos \<Rightarrow> (Succeeded, call GetCurrentPosition w)
            | GeoFailure errorCode \<Rightarrow> (Failed (Some (errorMessage errorCode)), call GetCurrentPosition w)))"

definition startLocationSharing ::
  "string \<Rightarrow> string option \<Rightarrow> userProfile \<Rightarrow> start_env \<Rightarrow> world \<Rightarrow> start_result \<times> world" where
  "startLocationSharing user_id user_mail info env w =
     (if \<not> geolocation env then (StartFailed ''Geolocation is not supported by this browser'', w)
      else (case positionFetch env of
              GeoFailure errorCode \<Rightarrow> (StartFailed (errorMessage errorCode), call GetCurrentPosition w)
            | GeoSuccess pos \<Rightarrow>
                (let w1 = call (SetDoc user_id) (call GetCurrentPosition w)
                 in case createWrite env of
                      WriteRejected msg \<Rightarrow>
                        (StartFailed (if msg = [] then ''Failed to start location sharing'' else msg), w1)
                    | WriteOk \<Rightarrow>
                        (Started pos,
                         w1\<lparr> store := (store w1)(user_id \<mapsto>
                               locationData user_id user_mail info pos (commitTime env)) \<rparr>))))"

text \<open>\<^verbatim>\<open>updateDriverLocation\<close> up to its \<^verbatim>\<open>await\<close>: the merge write is issued, and its
  outcome is queued until the promise resolves.\<close>

definition updateDriverLocation :: "string \<Rightarrow> position \<Rightarrow> write_result \<Rightarrow> fs_timestamp \<Rightarrow> world \<Rightarrow> world" where
  "updateDriverLocation user_id pos res now w =
     (let w1 = call (SetDocMerge user_id pos) w;
          w2 = (case res of
                  WriteOk \<Rightarrow> w1\<lparr> store := (store w1)(user_id \<mapsto> mergeUpdate user_id pos now (store w1 user_id)) \<rparr>
                | WriteRejected msg \<Rightarrow> w1)
      in w2\<lparr> pendingWrites := pendingWrites w2 @ [res] \<rparr>)"

text \<open>What \<^verbatim>\<open>updateDriverLocation\<close> returns once the write has resolved.\<close>

definition updateResult :: "write_result \<Rightarrow> outcome" where
  "updateResult res =
     (case res of
        WriteOk \<Rightarrow> Succeeded
      | WriteRejected msg \<Rightarrow> Failed (Some (if msg = [] then ''Failed to update location'' else msg)))"

definition stopLocationSharing :: "string \<Rightarrow> write_result \<Rightarrow> world \<Rightarrow> outcome \<times> world" where
  "stopLocationSharing user_id res w =
     (let w1 = call (DeleteDoc user_id) w
      in case res of
           WriteOk \<Rightarrow> (Succeeded, w1\<lparr> store := (store w1)(user_id := None) \<rparr>)
         | WriteRejected msg \<Rightarrow> (Failed (Some msg), w1))"

section \<open>useLocationSharing.js: the sharing session\<close>

text \<open>
  What the hook reads from its collaborators (\<^verbatim>\<open>useAuth\<close>, \<^verbatim>\<open>useUserRole\<close>), its state
  variables and its two refs. The state variable \<^verbatim>\<open>accuracy\<close> is the field
  \<open>positionAccuracy\<close>. A session is Active when \<open>isSharing\<close> holds.
\<close>

record capability =
  isDriver :: bool
  isVerified :: bool
  user :: "user option"
  profile :: "userProfile option"

record hook =
  isSharing :: bool
  loading :: bool
  error :: string
  locationPermission :: string
  currentPosition :: "position option"
  positionAccuracy :: "real option"
  watchIdRef :: "nat option"
  updateIntervalRef :: "nat option"

definition initialHook :: hook where
  "initialHook = \<lparr> isSharing = False, loading = False, error = [], locationPermission = ''unknown'',
     currentPosition = None, positionAccuracy = None, watchIdRef = None, updateIntervalRef = None \<rparr>"

definition initialWorld :: world where
  "initialWorld = \<lparr> store = Map.empty, watches = [], lastWatchId = 0, requests = [], pendingWrites = [] \<rparr>"

definition error_of :: "string option \<Rightarrow> string" where
  "error_of e = (case e of None \<Rightarrow> [] | Some msg \<Rightarrow> msg)"

text \<open>\<^verbatim>\<open>checkLocationPermission\<close>, run on mount: \<open>available\<close> is whether the browser has a
  geolocation object, \<open>queried\<close> the state the permissions API reports, missing when the
  query throws. The listener it installs stores every later state the same way.\<close>

definition checkLocationPermission :: "bool \<Rightarrow> string option \<Rightarrow> hook \<Rightarrow> hook" where
  "checkLocationPermission available queried h =
     (if \<not> available then h\<lparr> locationPermission := ''unavailable'' \<rparr>
      else case queried of
             Some state \<Rightarrow> h\<lparr> locationPermission := state \<rparr>
           | None \<Rightarrow> h\<lparr> locationPermission := ''unknown'' \<rparr>)"

definition clearError :: "hook \<Rightarrow> hook" where
  "clearError h = h\<lparr> error := [] \<rparr>"

definition requestPermission :: "start_env \<Rightarrow> hook \<Rightarrow> world \<Rightarrow> outcome \<times> hook \<times> world" where
  "requestPermission env h w =
     (let h1 = h\<lparr> loading := True, error := [] \<rparr>;
          (result, w1) = requestLocationPermission env w
      in case result of
           Succeeded \<Rightarrow> (Succeeded, h1\<lparr> locationPermission := ''granted'', loading := False \<rparr>, w1)
         | Failed e \<Rightarrow>
             (Failed e, h1\<lparr> error := error_of e, locationPermission := ''denied'', loading := False \<rparr>, w1))"

text \<open>\<^verbatim>\<open>if (ref.current) { clear(ref.current) }\<close>: an identifier is truthy when it is not 0.\<close>

definition cancelWatch :: "hook \<Rightarrow> world \<Rightarrow> world" where
  "cancelWatch h w =
     (case watchIdRef h of
        None \<Rightarrow> w
      | Some watchId \<Rightarrow> if watchId \<noteq> 0 then clearWatch watchId w else w)"

definition cancelInterval :: "hook \<Rightarrow> world \<Rightarrow> world" where
  "cancelInterval h w =
     (case updateIntervalRef h of
        None \<Rightarrow> w
      | Some intervalId \<Rightarrow> if intervalId \<noteq> 0 then clearInterval intervalId w else w)"

definition clearRef :: "nat option \<Rightarrow> nat option" where
  "clearRef r = (case r of None \<Rightarrow> None | Some n \<Rightarrow> if n \<noteq> 0 then None else Some n)"

text \<open>
  \<^verbatim>\<open>startWatchingPosition\<close>: an open watch is cancelled first, then one watch is
  registered and its identifier kept in the ref. It is called only after
  \<^verbatim>\<open>startLocationSharing\<close> has found the geolocation object, so \<^verbatim>\<open>watchPosition\<close>
  takes its registering branch.
\<close>

definition startWatchingPosition :: "hook \<Rightarrow> world \<Rightarrow> hook \<times> world" where
  "startWatchingPosition h w =
     (let w1 = cancelWatch h w;
          watchId = Suc (lastWatchId w1);
          w2 = call (WatchPosition watchId) (w1\<lparr> watches := watchId # watches w1, lastWatchId := watchId \<rparr>)
      in (h\<lparr> watchIdRef := Some watchId \<rparr>, w2))"

definition startSharing :: "capability \<Rightarrow> start_env \<Rightarrow> hook \<Rightarrow> world \<Rightarrow> outcome \<times> hook \<times> world" where
  "startSharing c env h w =
     (if \<not> isDriver c \<or> \<not> isVerified c
      then (Failed None, h\<lparr> error := ''Only verified drivers can share location'' \<rparr>, w)
      else case (user c, profile c) of
        (Some u, Some info) \<Rightarrow>
          (let h1 = h\<lparr> loading := True, error := [] \<rparr>;
               (permResult, h2, w2) =
                 (if locationPermission h \<noteq> ''granted'' \<and> locationPermission h \<noteq> ''unknown''
                  then requestPermission env h1 w
                  else (Succeeded, h1, w))
           in case permResult of
                Failed e \<Rightarrow> (Failed e, h2\<lparr> loading := False \<rparr>, w2)
              | Succeeded \<Rightarrow>
                  (case startLocationSharing (uid u) (user_email u) info env w2 of
                     (Started pos, w3) \<Rightarrow>
                       (let h3 = h2\<lparr> isSharing := True, currentPosition := Some pos,
                                     positionAccuracy := Some (coords_accuracy pos) \<rparr>;
                            (h4, w4) = startWatchingPosition h3 w3
                        in (Succeeded, h4\<lparr> loading := False \<rparr>, w4))
                   | (StartFailed msg, w3) \<Rightarrow>
                       (Failed (Some msg), h2\<lparr> error := msg, loading := False \<rparr>, w3)))
      | _ \<Rightarrow> (Failed None, h\<lparr> error := ''User not authenticated'' \<rparr>, w))"

text \<open>
  \<^verbatim>\<open>stopSharing\<close>: the error is cleared, the watch and the interval are cancelled, then
  the document is deleted. Reading \<^verbatim>\<open>user.uid\<close> of a missing user throws inside the
  \<^verbatim>\<open>try\<close>, after the cancellations.
\<close>

definition stopSharing :: "capability \<Rightarrow> write_result \<Rightarrow> hook \<Rightarrow> world \<Rightarrow> outcome \<times> hook \<times> world" where
  "stopSharing c res h w =
     (let h1 = h\<lparr> loading := True, error := [] \<rparr>;
          w1 = cancelWatch h1 w;
          h2 = h1\<lparr> watchIdRef := clearRef (watchIdRef h1) \<rparr>;
          w2 = cancelInterval h2 w1;
          h3 = h2\<lparr> updateIntervalRef := clearRef (updateIntervalRef h2) \<rparr>
      in case user c of
           None \<Rightarrow>
             (Failed (Some ''Failed to stop location sharing''),
              h3\<lparr> error := ''Failed to stop location sharing'', loading := False \<rparr>, w2)
         | Some u \<Rightarrow>
             (case stopLocationSharing (uid u) res w2 of
                (Succeeded, w3) \<Rightarrow>
                  (Succeeded,
                   h3\<lparr> isSharing := False, currentPosition := None, positionAccuracy := None,
                       loading := False \<rparr>, w3)
              | (Failed e, w3) \<Rightarrow> (Failed e, h3\<lparr> error := error_of e, loading := False \<rparr>, w3)))"

definition toggleSharing ::
  "capability \<Rightarrow> start_env \<Rightarrow> write_result \<Rightarrow> hook \<Rightarrow> world \<Rightarrow> outcome \<times> hook \<times> world" where
  "toggleSharing c env res h w =
     (let h1 = h\<lparr> error := [] \<rparr>
      in if isSharing h then stopSharing c res h1 w else startSharing c env h1 w)"

text \<open>
  The position callback of the watch, in its two halves. Up to the \<^verbatim>\<open>await\<close>: the
  position and its accuracy are stored and the merge write is issued (reading
  \<^verbatim>\<open>user.uid\<close> of a missing user throws, which the \<^verbatim>\<open>catch\<close> reports). After
  the \<^verbatim>\<open>await\<close>: the outcome of the write is looked at.
\<close>

definition onPosition :: "capability \<Rightarrow> position \<Rightarrow> write_result \<Rightarrow> fs_timestamp \<Rightarrow> hook \<Rightarrow> world \<Rightarrow> hook \<times> world" where
  "onPosition c pos res now h w =
     (let h1 = h\<lparr> currentPosition := Some pos, positionAccuracy := Some (coords_accuracy pos) \<rparr>
      in case user c of
           None \<Rightarrow> (h1\<lparr> error := ''Location update failed'' \<rparr>, w)
         | Some u \<Rightarrow> (h1, updateDriverLocation (uid u) pos res now w))"

definition onWriteResolved :: "write_result \<Rightarrow> hook \<Rightarrow> hook" where
  "onWriteResolved res h =
     (case updateResult res of
        Succeeded \<Rightarrow> h
      | Failed e \<Rightarrow> h\<lparr> error := ''Failed to update location'' \<rparr>)"

text \<open>
  The error callback of the watch. The service hands the hook \<^verbatim>\<open>new Error(errorMessage)\<close>;
  the hook reports it and compares \<^verbatim>\<open>error.code === error.PERMISSION_DENIED\<close> on that
  object. \<^verbatim>\<open>stopSharing()\<close> is called without \<^verbatim>\<open>await\<close>; the model runs it to its end.
\<close>

definition watchErrorWrapper :: "nat \<Rightarrow> js_error" where
  "watchErrorWrapper errorCode = new_Error (errorMessage errorCode)"

definition onWatchError :: "capability \<Rightarrow> js_error \<Rightarrow> write_result \<Rightarrow> hook \<Rightarrow> world \<Rightarrow> hook \<times> world" where
  "onWatchError c e res h w =
     (let h1 = h\<lparr> error := ''Location tracking error: '' @ message e \<rparr>
      in if error_code e = error_PERMISSION_DENIED e
         then (case stopSharing c res h1 w of (r, h2, w2) \<Rightarrow> (h2, w2))
         else (h1, w))"

text \<open>The cleanup of the unmount effect: the hook's state is gone afterwards, the world stays.\<close>

definition unmount :: "hook \<Rightarrow> world \<Rightarrow> world" where
  "unmount h w = cancelInterval h (cancelWatch h w)"

section \<open>The session as a transition system\<close>

text \<open>
  Events: the calls the hook offers its consumer, the callbacks the platform makes, and
  the teardown, each with the outcomes the outside world gives it. A start and a stop run
  to their end before the next event. A watch callback is delivered only while the watch
  kept in the ref is registered; a resolution delivers the outcome of the oldest
  unresolved merge write. After the unmount the hook is \<open>None\<close>.
\<close>

datatype event =
    Start start_env
  | Stop write_result
  | Toggle start_env write_result
  | PositionDelivered position write_result fs_timestamp
  | WriteResolved
  | ErrorDelivered nat write_result
  | PermissionChecked bool "string option"
  | PermissionChanged string
  | RequestPermission start_env
  | ClearError
  | Unmount

definition watching :: "hook \<Rightarrow> world \<Rightarrow> bool" where
  "watching h w = (case watchIdRef h of None \<Rightarrow> False | Some watchId \<Rightarrow> watchId \<in> set (watches w))"

fun step :: "capability \<Rightarrow> hook option \<times> world \<Rightarrow> event \<Rightarrow> hook option \<times> world" where
  "step c (None, w) ev = (None, w)"
| "step c (Some h, w) (Start env) = (case startSharing c env h w of (r, h', w') \<Rightarrow> (Some h', w'))"
| "step c (Some h, w) (Stop res) = (case stopSharing c res h w of (r, h', w') \<Rightarrow> (Some h', w'))"
| "step c (Some h, w) (Toggle env res) = (case toggleSharing c env res h w of (r, h', w') \<Rightarrow> (Some h', w'))"
| "step c (Some h, w) (PositionDelivered pos res now) =
     (if watching h w then (case onPosition c pos res now h w of (h', w') \<Rightarrow> (Some h', w'))
      else (Some h, w))"
| "step c (Some h, w) WriteResolved =
     (case pendingWrites w of
        [] \<Rightarrow> (Some h, w)
      | res # rest \<Rightarrow> (Some (onWriteResolved res h), w\<lparr> pendingWrites := rest \<rparr>))"
| "step c (Some h, w) (ErrorDelivered errorCode res) =
     (if watching h w then (case onWatchError c (watchErrorWrapper errorCode) res h w of (h', w') \<Rightarrow> (Some h', w'))
      else (Some h, w))"
| "step c (Some h, w) (PermissionChecked available queried) =
     (Some (checkLocationPermission available queried h), w)"
| "step c (Some h, w) (PermissionChanged state) = (Some (h\<lparr> locationPermission := state \<rparr>), w)"
| "step c (Some h, w) (RequestPermission env) =
     (case requestPermission env h w of (r, h', w') \<Rightarrow> (Some h', w'))"
| "step c (Some h, w) ClearError = (Some (clearError h), w)"
| "step c (Some h, w) Unmount = (None, unmount h w)"

definition run :: "capability \<Rightarrow> hook option \<times> world \<Rightarrow> event list \<Rightarrow> hook option \<times> world" where
  "run c s evs = foldl (step c) s evs"

text \<open>The presence record of a driver exists; the session is Active.\<close>

definition recordExists :: "string \<Rightarrow> world \<Rightarrow> bool" where
  "recordExists user_id w = (store w user_id \<noteq> None)"

definition active :: "hook option \<Rightarrow> bool" where
  "active s = (case s of None \<Rightarrow> False | Some h \<Rightarrow> isSharing h)"

section \<open>Notions used to state the properties\<close>

text \<open>The instant a store timestamp denotes, in milliseconds (its sub-millisecond part cut off).\<close>

definition toMillis :: "fs_timestamp \<Rightarrow> int" where
  "toMillis ts = seconds ts * 1000 + nanoseconds ts div 1000000"

definition mean :: "real list \<Rightarrow> real" where
  "mean xs = sum_list xs / real (length xs)"

text \<open>The positions a list of events delivers, and the positions of the merge writes in a
  log, both in order; the events that are watch callbacks or resolutions of their writes.\<close>

fun deliveries :: "event list \<Rightarrow> position list" where
  "deliveries [] = []"
| "deliveries (PositionDelivered pos res now # evs) = pos # deliveries evs"
| "deliveries (ev # evs) = deliveries evs"

fun mergeWrites :: "request list \<Rightarrow> position list" where
  "mergeWrites [] = []"
| "mergeWrites (SetDocMerge user_id pos # rs) = pos # mergeWrites rs"
| "mergeWrites (r # rs) = mergeWrites rs"

fun watchEvent :: "event \<Rightarrow> bool" where
  "watchEvent (PositionDelivered pos res now) = True"
| "watchEvent WriteResolved = True"
| "watchEvent ev = False"

text \<open>What a list of events makes of the record of driver \<open>i\<close> when the merge writes that
  the store accepts are applied one after the other in the order of the list; the events
  whose write the store accepts.\<close>

fun applyWrites :: "string \<Rightarrow> event list \<Rightarrow> driver option \<Rightarrow> driver option" where
  "applyWrites i [] d = d"
| "applyWrites i (PositionDelivered pos WriteOk now # evs) d =
     applyWrites i evs (Some (mergeUpdate i pos now d))"
| "applyWrites i (ev # evs) d = applyWrites i evs d"

fun appliesWrite :: "event \<Rightarrow> bool" where
  "appliesWrite (PositionDelivered pos WriteOk now) = True"
| "appliesWrite ev = False"

text \<open>The relation between hook and world that every start, stop and watch callback keeps:
  the record of the driver exists exactly when the session is sharing, and a registered
  watch belongs to a sharing session.\<close>

definition consistent :: "string \<Rightarrow> hook \<Rightarrow> world \<Rightarrow> bool" where
  "consistent i h w =
     ((store w i \<noteq> None) = isSharing h \<and> (watching h w \<longrightarrow> isSharing h) \<and> 0 \<notin> set (watches w))"

subsection \<open>A concrete driver\<close>

definition driverD :: user where
  "driverD = \<lparr> uid = ''driver-D'', user_email = Some ''d@example.org'' \<rparr>"

definition profileD :: userProfile where
  "profileD = \<lparr> profile_displayName = Some ''Dana'', driverInfo_busNumber = Some ''42'',
     driverInfo_route = None \<rparr>"

definition capabilityD :: capability where
  "capabilityD = \<lparr> isDriver = True, isVerified = True, user = Some driverD, profile = Some profileD \<rparr>"

definition positionP1 :: position where
  "positionP1 = \<lparr> coords_latitude = 40, coords_longitude = - 74, coords_accuracy = 5,
     coords_heading = None, coords_speed = None, position_timestamp = 1 \<rparr>"

definition positionP2 :: position where
  "positionP2 = \<lparr> coords_latitude = 42, coords_longitude = - 72, coords_accuracy = 5,
     coords_heading = Some 90, coords_speed = Some 3, position_timestamp = 2 \<rparr>"

definition timeT :: "int \<Rightarrow> fs_timestamp" where
  "timeT s = \<lparr> seconds = s, nanoseconds = 0 \<rparr>"

definition envOk :: start_env where
  "envOk = \<lparr> geolocation = True, permissionFetch = GeoSuccess positionP1,
     positionFetch = GeoSuccess positionP1, createWrite = WriteOk, commitTime = timeT 100 \<rparr>"

text \<open>A sharing hook with watch 1 registered, as a successful start leaves it.\<close>

definition sharingHook :: hook where
  "sharingHook = initialHook\<lparr> isSharing := True, currentPosition := Some positionP1,
     positionAccuracy := Some 5, watchIdRef := Some 1 \<rparr>"

definition sharingWorld :: world where
  "sharingWorld = initialWorld\<lparr> watches := [1], lastWatchId := 1 \<rparr>"

definition busAt :: "real option \<Rightarrow> real option \<Rightarrow> bus" where
  "busAt la lo = \<lparr> docId = ''bus-1'', latitude = la, longitude = lo, route = None, speed = None,
     heading = None, busId = None, status = None, lastUpdated = None \<rparr>"

definition driverAt :: "real option \<Rightarrow> real option \<Rightarrow> fs_timestamp option \<Rightarrow> driver" where
  "driverAt la lo ts = \<lparr> docId = ''driver-D'', latitude = la, longitude = lo, route = None, speed = None,
     heading = None, userId = Some ''driver-D'', email = None, displayName = None, busNumber = None,
     accuracy = None, timestamp = ts, isActive = Some True, lastSeen = ts, createdAt = None \<rparr>"

section \<open>Properties of the stream merger\<close>

lemmas merger_defs = subscribeToBusLocations_def BusMap_def busMarkers_def driverMarkers_def
  demoBuses_def demoBusesOnError_def demoBus1_def demoBus2_def demoBus3_def isStale_def isRecent_def
  hasCoordinates_def truthy_num_def getMapCenter_def allLocations_def defaultCenter_def num_def
  busAt_def driverAt_def timeT_def toMillis_def

lemma foldl_plus_sum_list:
  "foldl (\<lambda>sum loc. sum + f loc) a xs = a + sum_list (map f xs)"
  by (induction xs arbitrary: a) (simp_all add: add.assoc)

lemma hasCoordinates_demo:
  "hasCoordinates (demoBus1 now)" "hasCoordinates (demoBus2 now)" "hasCoordinates (demoBus3 now)"
  by (simp_all add: hasCoordinates_def truthy_num_def demoBus1_def demoBus2_def demoBus3_def)

lemma filter_coords_eq:
  "filter (\<lambda>x. truthy_num (latitude x) \<and> truthy_num (longitude x)) xs = filter hasCoordinates xs"
  by (rule filter_cong) (simp_all add: hasCoordinates_def)

lemma subscribe_all_coords:
  "b \<in> set (subscribeToBusLocations ev now) \<Longrightarrow> hasCoordinates b"
  using hasCoordinates_demo [of now]
  by (auto simp: subscribeToBusLocations_def demoBuses_def demoBusesOnError_def Let_def hasCoordinates_def
      split: snapshot_event.splits if_splits)

lemma allLocations_filter:
  "allLocations buses drivers =
     map BusLocation (filter hasCoordinates buses) @ map DriverLocation (filter hasCoordinates drivers)"
  by (simp add: allLocations_def filter_coords_eq)

lemma getMapCenter_mean:
  "getMapCenter buses drivers =
     (if allLocations buses drivers = [] then defaultCenter
      else (mean (map (num \<circ> loc_latitude) (allLocations buses drivers)),
            mean (map (num \<circ> loc_longitude) (allLocations buses drivers))))"
  by (simp add: getMapCenter_def Let_def foldl_plus_sum_list mean_def comp_def)

lemma getMapCenter_filter:
  "getMapCenter buses drivers = getMapCenter (filter hasCoordinates buses) (filter hasCoordinates drivers)"
  by (simp add: getMapCenter_def allLocations_filter)

text \<open>Both writers of a presence record put the same commit time in \<^verbatim>\<open>timestamp\<close> and in
  \<^verbatim>\<open>lastSeen\<close>, so the field the map reads is the last-seen time.\<close>

lemma writers_stamp_lastSeen:
  "timestamp (locationData i m info pos now) = lastSeen (locationData i m info pos now)"
  "timestamp (mergeUpdate i pos now old) = lastSeen (mergeUpdate i pos now old)"
  by (simp_all add: locationData_def mergeUpdate_def Let_def)

text \<open>
  C6. A presence entry whose store-assigned last-seen time is 301 seconds old is stale
  and one that is 299 seconds old is not: the flag compares the age of the timestamp,
  read in whole seconds, with 300000 milliseconds. A stale entry with coordinates still
  has its marker in the output of the map.
\<close>

theorem staleness_window_300s:
  "timestamp d = Some ts \<and> lastSeen d = timestamp d \<and> 0 \<le> nanoseconds ts \<and> nanoseconds ts < 1000000000 \<longrightarrow>
     (now - toMillis ts = 301000 \<longrightarrow> isStale d now) \<and>
     (now - toMillis ts = 299000 \<longrightarrow> \<not> isStale d now) \<and>
     (isStale d now \<longleftrightarrow> 300000 \<le> now - seconds ts * 1000) \<and>
     (d \<in> set drivers \<and> hasCoordinates d \<longrightarrow>
        DriverMarker d (\<not> isStale d now) \<in> set (BusMap buses drivers now))"
proof (intro impI, elim conjE)
  assume ts: "timestamp d = Some ts" and n: "0 \<le> nanoseconds ts" "nanoseconds ts < 1000000000"
  have sub: "0 \<le> nanoseconds ts div 1000000" "nanoseconds ts div 1000000 < 1000"
    using n by simp_all
  have m: "DriverMarker d (\<not> isStale d now) \<in> set (BusMap buses drivers now)"
    if "d \<in> set drivers" "hasCoordinates d"
    using that by (auto simp: BusMap_def driverMarkers_def isStale_def hasCoordinates_def)
  show "(now - toMillis ts = 301000 \<longrightarrow> isStale d now) \<and>
     (now - toMillis ts = 299000 \<longrightarrow> \<not> isStale d now) \<and>
     (isStale d now \<longleftrightarrow> 300000 \<le> now - seconds ts * 1000) \<and>
     (d \<in> set drivers \<and> hasCoordinates d \<longrightarrow>
        DriverMarker d (\<not> isStale d now) \<in> set (BusMap buses drivers now))"
    using sub m by (auto simp: isStale_def isRecent_def ts toMillis_def)
qed

theorem staleness_window_300s_witness:
  "isStale (driverAt (Some 40) (Some (- 74)) (Some (timeT 100))) 401000 \<and>
   \<not> isStale (driverAt (Some 40) (Some (- 74)) (Some (timeT 100))) 399000 \<and>
   DriverMarker (driverAt (Some 40) (Some (- 74)) (Some (timeT 100))) False
     \<in> set (BusMap [] [driverAt (Some 40) (Some (- 74)) (Some (timeT 100))] 401000)"
  using staleness_window_300s [of "driverAt (Some 40) (Some (- 74)) (Some (timeT 100))" "timeT 100" 401000
      "[driverAt (Some 40) (Some (- 74)) (Some (timeT 100))]" "[]"]
    staleness_window_300s [of "driverAt (Some 40) (Some (- 74)) (Some (timeT 100))" "timeT 100" 399000 "[]" "[]"]
  by (simp add: merger_defs)

lemma driverMarkers_filter:
  "driverMarkers ds t = map (\<lambda>d. DriverMarker d (isRecent d t)) (filter hasCoordinates ds)"
  by (induction ds) (auto simp: driverMarkers_def hasCoordinates_def)

text \<open>
  C7, as the code has it. When the fleet snapshot contributes no entry (it is empty, or
  none of its documents has coordinates), the subscriber receives exactly the three
  literal demo buses demo-bus-1, demo-bus-2 and demo-bus-3, by the branch written for
  that case. Merged with any presence list, the map then shows these three buses followed
  by the presence entries that have coordinates, each with its recency flag; a presence
  entry without coordinates is not in the output.
\<close>

theorem empty_fleet_yields_demo_fleet:
  "subscribeToBusLocations (Snapshot [] :: 'e snapshot_event) now = [demoBus1 now, demoBus2 now, demoBus3 now] \<and>
   map (\<lambda>b. (docId b, busId b, latitude b, longitude b, route b, status b, speed b, heading b, lastUpdated b))
       (subscribeToBusLocations (Snapshot [] :: 'e snapshot_event) now) =
     [(''demo-bus-1'', Some ''B001'', Some 40.7128, Some (- 74.0060), Some ''Route 1 - Downtown'',
       Some ''active'', Some 25, Some 90, Some (Date now)),
      (''demo-bus-2'', Some ''B002'', Some 40.7589, Some (- 73.9851), Some ''Route 2 - Uptown'',
       Some ''active'', Some 30, Some 180, Some (Date now)),
      (''demo-bus-3'', Some ''B003'', Some 40.7505, Some (- 73.9934), Some ''Route 3 - Crosstown'',
       Some ''maintenance'', Some 0, Some 0, Some (Date now))] \<and>
   (filter hasCoordinates snapshot = [] \<longrightarrow>
      subscribeToBusLocations (Snapshot snapshot :: 'e snapshot_event) now =
        [demoBus1 now, demoBus2 now, demoBus3 now] \<and>
      BusMap (subscribeToBusLocations (Snapshot snapshot :: 'e snapshot_event) now) drivers t =
        [BusMarker (demoBus1 now), BusMarker (demoBus2 now), BusMarker (demoBus3 now)] @
        map (\<lambda>d. DriverMarker d (isRecent d t)) (filter hasCoordinates drivers) \<and>
      allLocations (subscribeToBusLocations (Snapshot snapshot :: 'e snapshot_event) now) drivers =
        [BusLocation (demoBus1 now), BusLocation (demoBus2 now), BusLocation (demoBus3 now)] @
        map DriverLocation (filter hasCoordinates drivers))"
proof -
  have 1: "subscribeToBusLocations (Snapshot [] :: 'e snapshot_event) now =
      [demoBus1 now, demoBus2 now, demoBus3 now]"
    by (simp add: subscribeToBusLocations_def demoBuses_def)
  have lit: "map (\<lambda>b. (docId b, busId b, latitude b, longitude b, route b, status b, speed b, heading b,
        lastUpdated b)) [demoBus1 now, demoBus2 now, demoBus3 now] =
     [(''demo-bus-1'', Some ''B001'', Some 40.7128, Some (- 74.0060), Some ''Route 1 - Downtown'',
       Some ''active'', Some 25, Some 90, Some (Date now)),
      (''demo-bus-2'', Some ''B002'', Some 40.7589, Some (- 73.9851), Some ''Route 2 - Uptown'',
       Some ''active'', Some 30, Some 180, Some (Date now)),
      (''demo-bus-3'', Some ''B003'', Some 40.7505, Some (- 73.9934), Some ''Route 3 - Crosstown'',
       Some ''maintenance'', Some 0, Some 0, Some (Date now))]"
    by (simp add: demoBus1_def demoBus2_def demoBus3_def)
  have 2: "subscribeToBusLocations (Snapshot snapshot :: 'e snapshot_event) now =
      [demoBus1 now, demoBus2 now, demoBus3 now]" if "filter hasCoordinates snapshot = []"
    using that by (simp add: subscribeToBusLocations_def filter_coords_eq demoBuses_def)
  have 3: "busMarkers [demoBus1 now, demoBus2 now, demoBus3 now] =
      [BusMarker (demoBus1 now), BusMarker (demoBus2 now), BusMarker (demoBus3 now)]"
    using hasCoordinates_demo [of now] by (simp add: busMarkers_def hasCoordinates_def)
  have m: "BusMap [demoBus1 now, demoBus2 now, demoBus3 now] drivers t =
        [BusMarker (demoBus1 now), BusMarker (demoBus2 now), BusMarker (demoBus3 now)] @
        map (\<lambda>d. DriverMarker d (isRecent d t)) (filter hasCoordinates drivers)"
    by (simp only: BusMap_def 3 driverMarkers_filter)
  have a: "allLocations [demoBus1 now, demoBus2 now, demoBus3 now] drivers =
        [BusLocation (demoBus1 now), BusLocation (demoBus2 now), BusLocation (demoBus3 now)] @
        map DriverLocation (filter hasCoordinates drivers)"
    by (simp add: allLocations_filter hasCoordinates_demo)
  show ?thesis
    using 1 lit 2 m a by simp
qed

theorem empty_fleet_yields_demo_fleet_witness:
  "map docId (subscribeToBusLocations (Snapshot [busAt (Some 0) (Some 5)] :: unit snapshot_event) 7) =
     [''demo-bus-1'', ''demo-bus-2'', ''demo-bus-3''] \<and>
   BusMap (subscribeToBusLocations (Snapshot [] :: unit snapshot_event) 7)
       [driverAt (Some 40) (Some (- 74)) None, driverAt (Some 0) (Some 5) None] 9 =
     [BusMarker (demoBus1 7), BusMarker (demoBus2 7), BusMarker (demoBus3 7),
      DriverMarker (driverAt (Some 40) (Some (- 74)) None) False]"
  using empty_fleet_yields_demo_fleet [where 'e = unit and now = 7 and snapshot = "[busAt (Some 0) (Some 5)]"
      and drivers = "[driverAt (Some 40) (Some (- 74)) None, driverAt (Some 0) (Some 5) None]" and t = 9]
    empty_fleet_yields_demo_fleet [where 'e = unit and now = 7 and snapshot = "[]"
      and drivers = "[driverAt (Some 40) (Some (- 74)) None, driverAt (Some 0) (Some 5) None]" and t = 9]
  by (simp add: merger_defs)

text \<open>The claim as stated, for every presence stream, fails: with an empty fleet snapshot
  and the one presence entry at latitude 0, the output holds the three demo buses and no
  marker and no location for the presence entry.\<close>

theorem presence_entry_at_latitude_zero_not_merged:
  "BusMap (subscribeToBusLocations (Snapshot [] :: unit snapshot_event) 7)
       [driverAt (Some 0) (Some 5) None] 9 =
     [BusMarker (demoBus1 7), BusMarker (demoBus2 7), BusMarker (demoBus3 7)] \<and>
   allLocations (subscribeToBusLocations (Snapshot [] :: unit snapshot_event) 7)
       [driverAt (Some 0) (Some 5) None] =
     [BusLocation (demoBus1 7), BusLocation (demoBus2 7), BusLocation (demoBus3 7)] \<and>
   listenToDriverLocations [driverAt (Some 0) (Some 5) None] = [driverAt (Some 0) (Some 5) None]"
  by (simp add: merger_defs listenToDriverLocations_def)

text \<open>
  C8. The centre of the map is the arithmetic mean of the latitudes and of the longitudes
  of all buses and drivers with coordinates; for the two entities (40, -74) and (42, -72)
  it is (41, -73); when no entity has coordinates it is the fixed default coordinate.
\<close>

theorem map_center_is_centroid:
  "getMapCenter buses drivers =
     (if allLocations buses drivers = [] then defaultCenter
      else (mean (map (num \<circ> loc_latitude) (allLocations buses drivers)),
            mean (map (num \<circ> loc_longitude) (allLocations buses drivers)))) \<and>
   allLocations buses drivers =
     map BusLocation (filter hasCoordinates buses) @ map DriverLocation (filter hasCoordinates drivers) \<and>
   (latitude b = Some 40 \<and> longitude b = Some (- 74) \<and> latitude d = Some 42 \<and> longitude d = Some (- 72) \<longrightarrow>
      getMapCenter [b] [d] = (41, - 73)) \<and>
   (latitude b = Some 40 \<and> longitude b = Some (- 74) \<and> latitude b' = Some 42 \<and> longitude b' = Some (- 72) \<longrightarrow>
      getMapCenter [b, b'] [] = (41, - 73)) \<and>
   (latitude d = Some 42 \<and> longitude d = Some (- 72) \<and> latitude d' = Some 40 \<and> longitude d' = Some (- 74) \<longrightarrow>
      getMapCenter [] [d', d] = (41, - 73)) \<and>
   ((\<forall>x \<in> set buses. \<not> hasCoordinates x) \<and> (\<forall>x \<in> set drivers. \<not> hasCoordinates x) \<longrightarrow>
      getMapCenter buses drivers = defaultCenter) \<and>
   getMapCenter [] [] = defaultCenter \<and> defaultCenter = (40.7128, - 74.0060)"
proof -
  have ex1: "latitude b = Some 40 \<and> longitude b = Some (- 74) \<and> latitude d = Some 42 \<and> longitude d = Some (- 72) \<longrightarrow>
      getMapCenter [b] [d] = (41, - 73)"
    by (simp add: getMapCenter_def allLocations_def truthy_num_def num_def)
  have ex2: "latitude b = Some 40 \<and> longitude b = Some (- 74) \<and> latitude b' = Some 42 \<and> longitude b' = Some (- 72) \<longrightarrow>
      getMapCenter [b, b'] [] = (41, - 73)"
    by (simp add: getMapCenter_def allLocations_def truthy_num_def num_def)
  have ex3: "latitude d = Some 42 \<and> longitude d = Some (- 72) \<and> latitude d' = Some 40 \<and> longitude d' = Some (- 74) \<longrightarrow>
      getMapCenter [] [d', d] = (41, - 73)"
    by (simp add: getMapCenter_def allLocations_def truthy_num_def num_def)
  have none: "(\<forall>x \<in> set buses. \<not> hasCoordinates x) \<and> (\<forall>x \<in> set drivers. \<not> hasCoordinates x) \<longrightarrow>
      getMapCenter buses drivers = defaultCenter"
    by (simp add: getMapCenter_mean allLocations_filter filter_empty_conv)
  have e: "getMapCenter [] [] = defaultCenter"
    by (simp add: getMapCenter_def allLocations_def)
  show ?thesis
    using ex1 ex2 ex3 none e getMapCenter_mean [of buses drivers] allLocations_filter [of buses drivers]
    by (simp only: defaultCenter_def simp_thms)
qed

theorem map_center_is_centroid_witness:
  "getMapCenter [busAt (Some 40) (Some (- 74))] [driverAt (Some 42) (Some (- 72)) None] = (41, - 73) \<and>
   getMapCenter [busAt (Some 0) (Some 5)] [driverAt None (Some 3) None] = defaultCenter"
  using map_center_is_centroid [of "[busAt (Some 0) (Some 5)]" "[driverAt None (Some 3) None]"
      "busAt (Some 40) (Some (- 74))" "driverAt (Some 42) (Some (- 72)) None"]
  by (simp add: merger_defs)

text \<open>
  C9. Coordinates are valid when latitude and longitude are both truthy. An entry whose
  latitude or longitude is 0 or missing is left out of what the fleet subscription
  delivers (a collection holding only such a bus yields the demo fleet), does not count
  in the centre of the map, and has no marker.
\<close>

theorem falsy_coordinates_are_invalid:
  "((latitude x = Some 0 \<or> longitude x = Some 0 \<or> latitude x = None \<or> longitude x = None)
      \<longleftrightarrow> \<not> hasCoordinates x) \<and>
   (\<not> hasCoordinates b \<longrightarrow>
      b \<notin> set (subscribeToBusLocations (Snapshot snapshot :: 'e snapshot_event) now) \<and>
      subscribeToBusLocations (Snapshot [b] :: 'e snapshot_event) now = demoBuses now \<and>
      getMapCenter (bs @ b # bs') drivers = getMapCenter (bs @ bs') drivers \<and>
      BusMarker b \<notin> set (BusMap buses drivers t)) \<and>
   (\<not> hasCoordinates d \<longrightarrow>
      getMapCenter buses (ds @ d # ds') = getMapCenter buses (ds @ ds') \<and>
      DriverMarker d r \<notin> set (BusMap buses drivers t))"
proof -
  have v: "(latitude x = Some 0 \<or> longitude x = Some 0 \<or> latitude x = None \<or> longitude x = None)
      \<longleftrightarrow> \<not> hasCoordinates x"
    by (auto simp: hasCoordinates_def truthy_num_def split: option.splits)
  have b1: "b \<notin> set (subscribeToBusLocations (Snapshot snapshot :: 'e snapshot_event) now)" if "\<not> hasCoordinates b"
    using that subscribe_all_coords by blast
  have b2: "subscribeToBusLocations (Snapshot [b] :: 'e snapshot_event) now = demoBuses now" if "\<not> hasCoordinates b"
    using that by (auto simp: subscribeToBusLocations_def hasCoordinates_def)
  have b3: "getMapCenter (bs @ b # bs') drivers = getMapCenter (bs @ bs') drivers" if "\<not> hasCoordinates b"
    using that by (simp add: getMapCenter_filter [of "bs @ b # bs'"] getMapCenter_filter [of "bs @ bs'"])
  have b4: "BusMarker b \<notin> set (BusMap buses drivers t)" if "\<not> hasCoordinates b"
    using that by (auto simp: BusMap_def busMarkers_def driverMarkers_def hasCoordinates_def split: if_splits)
  have d3: "getMapCenter buses (ds @ d # ds') = getMapCenter buses (ds @ ds')" if "\<not> hasCoordinates d"
    using that by (simp add: getMapCenter_filter [of _ "ds @ d # ds'"] getMapCenter_filter [of _ "ds @ ds'"])
  have d4: "DriverMarker d r \<notin> set (BusMap buses drivers t)" if "\<not> hasCoordinates d"
    using that by (auto simp: BusMap_def busMarkers_def driverMarkers_def hasCoordinates_def split: if_splits)
  show ?thesis using v b1 b2 b3 b4 d3 d4 by blast
qed

theorem falsy_coordinates_are_invalid_witness:
  "\<not> hasCoordinates (busAt (Some 0) (Some 5)) \<and>
   \<not> hasCoordinates (driverAt (Some 3) None None) \<and>
   subscribeToBusLocations (Snapshot [busAt (Some 0) (Some 5)] :: unit snapshot_event) 7 = demoBuses 7 \<and>
   getMapCenter [busAt (Some 0) (Some 5)] [driverAt (Some 3) None None] = getMapCenter [] [] \<and>
   BusMarker (busAt (Some 0) (Some 5))
     \<notin> set (BusMap [busAt (Some 0) (Some 5)] [driverAt (Some 3) None None] 9) \<and>
   DriverMarker (driverAt (Some 3) None None) False
     \<notin> set (BusMap [busAt (Some 0) (Some 5)] [driverAt (Some 3) None None] 9)"
  using falsy_coordinates_are_invalid [where 'e = unit, of "busAt (Some 0) (Some 5)" "busAt (Some 0) (Some 5)"
      "[] :: bus list" 7 "[]" "[]" "[driverAt (Some 3) None None]" "[busAt (Some 0) (Some 5)]" 9
      "driverAt (Some 3) None None" "[]" "[]" False]
    falsy_coordinates_are_invalid [where 'e = unit, of "driverAt (Some 3) None None" "busAt (Some 0) (Some 5)"
      "[] :: bus list" 7 "[]" "[]" "[]" "[]" 9
      "driverAt (Some 3) None None" "[]" "[]" False]
  by (simp add: merger_defs)

text \<open>
  C10. On an error of the fleet subscription the subscriber is still called, with the
  one-entry list holding only demo-bus-1; this differs from the three demo buses of the
  empty snapshot, and what the subscriber receives does not depend on the error.
\<close>

theorem fleet_error_yields_single_demo_bus:
  "subscribeToBusLocations (SnapshotError e :: 'e snapshot_event) now = [demoBus1 now] \<and>
   map docId (subscribeToBusLocations (SnapshotError e :: 'e snapshot_event) now) = [''demo-bus-1''] \<and>
   map docId (subscribeToBusLocations (Snapshot [] :: 'e snapshot_event) now) = [''demo-bus-1'', ''demo-bus-2'', ''demo-bus-3''] \<and>
   subscribeToBusLocations (SnapshotError e :: 'e snapshot_event) now \<noteq> subscribeToBusLocations (Snapshot [] :: 'e snapshot_event) now \<and>
   subscribeToBusLocations (SnapshotError e :: 'e snapshot_event) now = subscribeToBusLocations (SnapshotError e' :: 'e snapshot_event) now"
  by (simp add: subscribeToBusLocations_def demoBusesOnError_def demoBuses_def
      demoBus1_def demoBus2_def demoBus3_def)

theorem fleet_error_yields_single_demo_bus_witness:
  "subscribeToBusLocations (SnapshotError ''unavailable'') 7 = [demoBus1 7] \<and>
   length (subscribeToBusLocations (Snapshot [] :: string snapshot_event) 7) = 3"
  using fleet_error_yields_single_demo_bus [of "''unavailable''" 7 "''unavailable''"]
  by (simp add: merger_defs)

section \<open>Properties of the sharing session\<close>

lemmas session_defs = run_def startSharing_def stopSharing_def startLocationSharing_def
  stopLocationSharing_def startWatchingPosition_def cancelWatch_def cancelInterval_def clearRef_def
  clearWatch_def clearInterval_def call_def unmount_def onPosition_def onWatchError_def
  onWriteResolved_def updateDriverLocation_def updateResult_def watching_def watchErrorWrapper_def
  new_Error_def errorMessage_def requestPermission_def requestLocationPermission_def error_of_def
  toggleSharing_def checkLocationPermission_def clearError_def

lemmas example_defs = driverD_def profileD_def capabilityD_def positionP1_def positionP2_def
  timeT_def envOk_def initialHook_def initialWorld_def sharingHook_def sharingWorld_def

lemma watching_iff:
  "watching h w \<longleftrightarrow> (\<exists>i. watchIdRef h = Some i \<and> i \<in> set (watches w))"
  by (simp add: watching_def split: option.splits)

lemma mergeWrites_append: "mergeWrites (rs @ rs') = mergeWrites rs @ mergeWrites rs'"
  by (induction rs rule: mergeWrites.induct) simp_all

lemma step_position:
  assumes "user c = Some u" "watching h w"
  shows "step c (Some h, w) (PositionDelivered pos res now) =
    (Some (h\<lparr> currentPosition := Some pos, positionAccuracy := Some (coords_accuracy pos) \<rparr>),
     updateDriverLocation (uid u) pos res now w)"
  using assms by (simp add: onPosition_def)

lemma updateDriverLocation_fields:
  "requests (updateDriverLocation i pos res now w) = requests w @ [SetDocMerge i pos]"
  "pendingWrites (updateDriverLocation i pos res now w) = pendingWrites w @ [res]"
  "watches (updateDriverLocation i pos res now w) = watches w"
  by (simp_all add: updateDriverLocation_def call_def Let_def split: write_result.splits)

lemma watching_update:
  "watching (h\<lparr> currentPosition := p, positionAccuracy := a \<rparr>) (updateDriverLocation i pos res now w)
     = watching h w"
  by (simp add: watching_iff updateDriverLocation_fields)

lemma watching_resolved:
  "watching (onWriteResolved res h) (w\<lparr> pendingWrites := rest \<rparr>) = watching h w"
  by (simp add: watching_iff onWriteResolved_def split: outcome.splits)

text \<open>Over watch callbacks and resolutions the watch stays registered, and the merge
  writes of the log are the delivered positions, in the order of delivery.\<close>

lemma run_watch_events:
  assumes "user c = Some u"
  shows "watching h w \<Longrightarrow> \<forall>ev \<in> set evs. watchEvent ev \<Longrightarrow>
     \<exists>h' w'. run c (Some h, w) evs = (Some h', w') \<and> watching h' w' \<and>
       mergeWrites (requests w') = mergeWrites (requests w) @ deliveries evs"
proof (induction evs arbitrary: h w)
  case Nil
  then show ?case by (simp add: run_def)
next
  case (Cons ev evs)
  show ?case
  proof (cases ev)
    case (PositionDelivered pos res now)
    let ?h = "h\<lparr> currentPosition := Some pos, positionAccuracy := Some (coords_accuracy pos) \<rparr>"
    let ?w = "updateDriverLocation (uid u) pos res now w"
    have st: "step c (Some h, w) ev = (Some ?h, ?w)"
      using step_position [OF assms Cons.prems(1)] PositionDelivered by simp
    have "watching ?h ?w" using Cons.prems(1) by (simp add: watching_update)
    from Cons.IH [OF this] Cons.prems(2)
    obtain h' w' where r: "run c (Some ?h, ?w) evs = (Some h', w')" "watching h' w'"
      "mergeWrites (requests w') = mergeWrites (requests ?w) @ deliveries evs" by auto
    show ?thesis
      using r st PositionDelivered
      by (simp add: run_def updateDriverLocation_fields mergeWrites_append)
  next
    case WriteResolved
    show ?thesis
    proof (cases "pendingWrites w")
      case Nil
      from Cons.IH [OF Cons.prems(1)] Cons.prems(2)
      show ?thesis using WriteResolved Nil by (simp add: run_def)
    next
      case (Cons res rest)
      have "watching (onWriteResolved res h) (w\<lparr> pendingWrites := rest \<rparr>)"
        using Cons.prems(1) by (simp add: watching_resolved)
      from Cons.IH [OF this] Cons.prems(2)
      show ?thesis using WriteResolved Cons by (simp add: run_def)
    qed
  qed (use Cons.prems(2) in simp_all)
qed

text \<open>A merge write the store accepts replaces the record by the merged one when it is
  issued; over watch callbacks and resolutions the record is what applying the accepted
  writes in the order of delivery gives.\<close>

lemma updateDriverLocation_store:
  "store (updateDriverLocation i pos WriteOk now w) = (store w)(i \<mapsto> mergeUpdate i pos now (store w i))"
  "store (updateDriverLocation i pos (WriteRejected msg) now w) = store w"
  by (simp_all add: updateDriverLocation_def call_def Let_def)

lemma applyWrites_append:
  "applyWrites i (evs @ evs') d = applyWrites i evs' (applyWrites i evs d)"
  by (induction i evs d rule: applyWrites.induct) simp_all

lemma applyWrites_none:
  "\<forall>ev \<in> set evs. \<not> appliesWrite ev \<Longrightarrow> applyWrites i evs d = d"
  by (induction i evs d rule: applyWrites.induct) simp_all

lemma mergeUpdate_fields:
  "latitude (mergeUpdate i pos now d) = Some (coords_latitude pos)"
  "longitude (mergeUpdate i pos now d) = Some (coords_longitude pos)"
  "timestamp (mergeUpdate i pos now d) = Some now"
  by (simp_all add: mergeUpdate_def Let_def)

lemma run_watch_events_store:
  assumes "user c = Some u"
  shows "watching h w \<Longrightarrow> \<forall>ev \<in> set evs. watchEvent ev \<Longrightarrow>
     store (snd (run c (Some h, w) evs)) = (store w)(uid u := applyWrites (uid u) evs (store w (uid u)))"
proof (induction evs arbitrary: h w)
  case Nil
  then show ?case by (simp add: run_def)
next
  case (Cons ev evs)
  show ?case
  proof (cases ev)
    case (PositionDelivered pos res now)
    let ?h = "h\<lparr> currentPosition := Some pos, positionAccuracy := Some (coords_accuracy pos) \<rparr>"
    let ?w = "updateDriverLocation (uid u) pos res now w"
    have st: "step c (Some h, w) ev = (Some ?h, ?w)"
      using step_position [OF assms Cons.prems(1)] PositionDelivered by simp
    have wt: "watching ?h ?w" using Cons.prems(1) by (simp add: watching_update)
    have rest: "\<forall>ev \<in> set evs. watchEvent ev" using Cons.prems(2) by simp
    note r = Cons.IH [OF wt rest]
    show ?thesis
    proof (cases res)
      case WriteOk
      then show ?thesis using r st PositionDelivered
        by (auto simp add: run_def updateDriverLocation_store fun_eq_iff)
    next
      case (WriteRejected msg)
      then show ?thesis using r st PositionDelivered
        by (auto simp add: run_def updateDriverLocation_store fun_eq_iff)
    qed
  next
    case WriteResolved
    show ?thesis
    proof (cases "pendingWrites w")
      case Nil
      have rest: "\<forall>ev \<in> set evs. watchEvent ev" using Cons.prems(2) by simp
      show ?thesis
        using Cons.IH [OF Cons.prems(1) rest] WriteResolved Nil by (simp add: run_def)
    next
      case (Cons res ress)
      have wt: "watching (onWriteResolved res h) (w\<lparr> pendingWrites := ress \<rparr>)"
        using Cons.prems(1) by (simp add: watching_resolved)
      have rest: "\<forall>ev \<in> set evs. watchEvent ev" using Cons.prems(2) by simp
      show ?thesis
        using Cons.IH [OF wt rest] WriteResolved Cons by (simp add: run_def)
    qed
  qed (use Cons.prems(2) in simp_all)
qed

subsection \<open>Start and stop keep record and session in step\<close>

lemma cancelWatch_fields:
  "store (cancelWatch h w) = store w"
  "set (watches (cancelWatch h w)) \<subseteq> set (watches w)"
  "watchIdRef h = Some n \<Longrightarrow> n \<noteq> 0 \<Longrightarrow> n \<notin> set (watches (cancelWatch h w))"
  by (auto simp: cancelWatch_def clearWatch_def call_def split: option.splits)

lemma cancelInterval_fields:
  "store (cancelInterval h w) = store w"
  "watches (cancelInterval h w) = watches w"
  by (auto simp: cancelInterval_def clearInterval_def call_def split: option.splits)

lemma consistent_frame:
  "consistent i h w \<Longrightarrow> store w' = store w \<Longrightarrow> watches w' = watches w \<Longrightarrow>
     isSharing h' = isSharing h \<Longrightarrow> watchIdRef h' = watchIdRef h \<Longrightarrow> consistent i h' w'"
  by (simp add: consistent_def watching_iff)

lemma stopSharing_consistent:
  assumes "user c = Some u" "consistent (uid u) h w" "stopSharing c res h w = (r, h', w')"
  shows "consistent (uid u) h' w'"
proof -
  let ?w2 = "cancelInterval (h\<lparr> loading := True, error := [], watchIdRef := clearRef (watchIdRef h) \<rparr>)
      (cancelWatch (h\<lparr> loading := True, error := [] \<rparr>) w)"
  have nz: "0 \<notin> set (watches ?w2)"
    using assms(2) cancelWatch_fields(2) [of "h\<lparr> loading := True, error := [] \<rparr>" w]
    by (auto simp: consistent_def cancelInterval_fields)
  have nw: "\<not> watching (h\<lparr> watchIdRef := clearRef (watchIdRef h) \<rparr>) ?w2"
    using nz cancelWatch_fields(3) [of "h\<lparr> loading := True, error := [] \<rparr>" _ w]
    by (auto simp: watching_iff clearRef_def cancelInterval_fields split: option.splits if_splits)
  have st: "store ?w2 = store w"
    by (simp add: cancelInterval_fields cancelWatch_fields)
  show ?thesis
    using assms nz nw st
    by (auto simp: stopSharing_def Let_def stopLocationSharing_def call_def consistent_def watching_iff
        split: write_result.splits option.splits)
qed

lemma requestPermission_frame:
  "requestPermission env h w = (r, h', w') \<Longrightarrow>
     store w' = store w \<and> watches w' = watches w \<and> isSharing h' = isSharing h \<and>
     watchIdRef h' = watchIdRef h"
  by (auto simp: requestPermission_def requestLocationPermission_def call_def Let_def
      split: if_splits geo_result.splits)

lemma startLocationSharing_frame:
  "startLocationSharing i m info env w = (Started pos, w3) \<Longrightarrow>
     store w3 i \<noteq> None \<and> watches w3 = watches w"
  "startLocationSharing i m info env w = (StartFailed msg, w3) \<Longrightarrow>
     store w3 = store w \<and> watches w3 = watches w"
  by (auto simp: startLocationSharing_def call_def Let_def
      split: if_splits geo_result.splits write_result.splits)

lemma startWatchingPosition_frame:
  assumes "startWatchingPosition h w = (h4, w4)"
  shows "store w4 = store w" "isSharing h4 = isSharing h"
    "0 \<notin> set (watches w) \<Longrightarrow> 0 \<notin> set (watches w4)"
  using assms
  by (auto simp: startWatchingPosition_def call_def Let_def cancelWatch_fields(1)
      dest: subsetD [OF cancelWatch_fields(2)])

lemma startSharing_consistent:
  assumes u: "user c = Some u" and c: "consistent (uid u) h w"
    and s: "startSharing c env h w = (r, h', w')"
  shows "consistent (uid u) h' w'"
proof (cases "\<not> isDriver c \<or> \<not> isVerified c \<or> profile c = None")
  case True
  then have "store w' = store w \<and> watches w' = watches w \<and> isSharing h' = isSharing h \<and>
      watchIdRef h' = watchIdRef h"
    using u s by (auto simp: startSharing_def split: if_splits)
  then show ?thesis using c consistent_frame by blast
next
  case False
  then obtain info where info: "profile c = Some info" "isDriver c" "isVerified c" by auto
  obtain pr h2 w2 where p:
    "(if locationPermission h \<noteq> ''granted'' \<and> locationPermission h \<noteq> ''unknown''
      then requestPermission env (h\<lparr> loading := True, error := [] \<rparr>) w
      else (Succeeded, h\<lparr> loading := True, error := [] \<rparr>, w)) = (pr, h2, w2)"
    by (metis prod_cases3)
  have f: "store w2 = store w \<and> watches w2 = watches w \<and> isSharing h2 = isSharing h \<and>
      watchIdRef h2 = watchIdRef h"
    using p requestPermission_frame [of env "h\<lparr> loading := True, error := [] \<rparr>" w pr h2 w2]
    by (auto split: if_splits)
  have c2: "consistent (uid u) h2 w2"
    using c f consistent_frame by blast
  have s2: "(r, h', w') =
     (case pr of
        Failed e \<Rightarrow> (Failed e, h2\<lparr> loading := False \<rparr>, w2)
      | Succeeded \<Rightarrow>
          (case startLocationSharing (uid u) (user_email u) info env w2 of
             (Started pos, w3) \<Rightarrow>
               (let h3 = h2\<lparr> isSharing := True, currentPosition := Some pos,
                             positionAccuracy := Some (coords_accuracy pos) \<rparr>;
                    (h4, w4) = startWatchingPosition h3 w3
                in (Succeeded, h4\<lparr> loading := False \<rparr>, w4))
           | (StartFailed msg, w3) \<Rightarrow>
               (Failed (Some msg), h2\<lparr> error := msg, loading := False \<rparr>, w3)))"
    using s info u p by (simp add: startSharing_def Let_def)
  show ?thesis
  proof (cases pr)
    case (Failed e)
    then show ?thesis
      using s2 c2 consistent_frame [of "uid u" h2 w2 w2 "h2\<lparr> loading := False \<rparr>"] by simp
  next
    case Succeeded
    obtain sr w3 where sl: "startLocationSharing (uid u) (user_email u) info env w2 = (sr, w3)"
      by (metis surj_pair)
    show ?thesis
    proof (cases sr)
      case (StartFailed msg)
      have "store w3 = store w2 \<and> watches w3 = watches w2"
        using startLocationSharing_frame(2) sl StartFailed by blast
      then show ?thesis
        using s2 Succeeded sl StartFailed c2
          consistent_frame [of "uid u" h2 w2 w3 "h2\<lparr> error := msg, loading := False \<rparr>"] by simp
    next
      case (Started pos)
      let ?h3 = "h2\<lparr> isSharing := True, currentPosition := Some pos,
        positionAccuracy := Some (coords_accuracy pos) \<rparr>"
      obtain h4 w4 where sw: "startWatchingPosition ?h3 w3 = (h4, w4)" by (metis surj_pair)
      have a: "store w3 (uid u) \<noteq> None \<and> watches w3 = watches w2"
        using startLocationSharing_frame(1) sl Started by blast
      have b: "store w4 = store w3" "isSharing h4" "0 \<notin> set (watches w4)"
        using startWatchingPosition_frame [OF sw] a c2 by (simp_all add: consistent_def)
      have "h' = h4\<lparr> loading := False \<rparr> \<and> w' = w4"
        using s2 Succeeded sl Started sw by simp
      then show ?thesis using a b by (simp add: consistent_def)
    qed
  qed
qed

lemma onPosition_consistent:
  assumes "user c = Some u" "consistent (uid u) h w" "watching h w"
    "onPosition c pos res now h w = (h', w')"
  shows "consistent (uid u) h' w'"
  using assms
  by (auto simp: onPosition_def consistent_def watching_iff updateDriverLocation_def call_def Let_def
      split: write_result.splits)

lemma onWatchError_consistent:
  assumes "user c = Some u" "consistent (uid u) h w" "onWatchError c e res h w = (h', w')"
  shows "consistent (uid u) h' w'"
proof (cases "error_code e = error_PERMISSION_DENIED e")
  case True
  let ?h1 = "h\<lparr> error := ''Location tracking error: '' @ message e \<rparr>"
  obtain r where "stopSharing c res ?h1 w = (r, h', w')"
    using assms(3) True by (auto simp: onWatchError_def Let_def split: prod.splits)
  moreover have "consistent (uid u) ?h1 w"
    using assms(2) consistent_frame by simp
  ultimately show ?thesis using stopSharing_consistent assms(1) by blast
next
  case False
  then show ?thesis using assms consistent_frame by (auto simp: onWatchError_def Let_def)
qed

lemma step_consistent:
  assumes "user c = Some u" "consistent (uid u) h w" "ev \<noteq> Unmount"
  shows "\<exists>h' w'. step c (Some h, w) ev = (Some h', w') \<and> consistent (uid u) h' w'"
proof (cases ev)
  case (Start env)
  obtain r h' w' where "startSharing c env h w = (r, h', w')" by (metis prod_cases3)
  then show ?thesis using Start startSharing_consistent [OF assms(1,2)] by auto
next
  case (Stop res)
  obtain r h' w' where "stopSharing c res h w = (r, h', w')" by (metis prod_cases3)
  then show ?thesis using Stop stopSharing_consistent [OF assms(1,2)] by auto
next
  case (Toggle env res)
  have c1: "consistent (uid u) (h\<lparr> error := [] \<rparr>) w"
    using assms(2) consistent_frame by simp
  obtain r h' w' where t: "toggleSharing c env res h w = (r, h', w')" by (metis prod_cases3)
  then have "consistent (uid u) h' w'"
    using startSharing_consistent [OF assms(1) c1] stopSharing_consistent [OF assms(1) c1]
    by (auto simp: toggleSharing_def Let_def split: if_splits)
  then show ?thesis using Toggle t by simp
next
  case (PositionDelivered pos res now)
  obtain h' w' where "onPosition c pos res now h w = (h', w')" by (metis surj_pair)
  then show ?thesis
    using PositionDelivered onPosition_consistent [OF assms(1,2)] assms(2) by auto
next
  case WriteResolved
  then show ?thesis using assms(2)
    by (auto simp: consistent_def watching_iff onWriteResolved_def split: list.splits outcome.splits)
next
  case (ErrorDelivered errorCode res)
  obtain h' w' where "onWatchError c (watchErrorWrapper errorCode) res h w = (h', w')"
    by (metis surj_pair)
  then show ?thesis
    using ErrorDelivered onWatchError_consistent [OF assms(1,2)] assms(2) by auto
next
  case (PermissionChecked available queried)
  then show ?thesis
    using consistent_frame [OF assms(2), of w "checkLocationPermission available queried h"]
    by (simp add: checkLocationPermission_def split: option.splits)
next
  case (PermissionChanged state)
  then show ?thesis
    using consistent_frame [OF assms(2), of w "h\<lparr> locationPermission := state \<rparr>"] by simp
next
  case (RequestPermission env)
  obtain r h' w' where rp: "requestPermission env h w = (r, h', w')" by (metis prod_cases3)
  then have "consistent (uid u) h' w'"
    using requestPermission_frame [OF rp] consistent_frame [OF assms(2)] by blast
  then show ?thesis using RequestPermission rp by simp
next
  case ClearError
  then show ?thesis
    using consistent_frame [OF assms(2), of w "clearError h"] by (simp add: clearError_def)
next
  case Unmount
  then show ?thesis using assms(3) by simp
qed

lemma run_consistent:
  assumes "user c = Some u"
  shows "consistent (uid u) h w \<Longrightarrow> Unmount \<notin> set evs \<Longrightarrow>
     \<exists>h' w'. run c (Some h, w) evs = (Some h', w') \<and> consistent (uid u) h' w'"
proof (induction evs arbitrary: h w)
  case Nil
  then show ?case by (simp add: run_def)
next
  case (Cons ev evs)
  then obtain h1 w1 where s: "step c (Some h, w) ev = (Some h1, w1)" "consistent (uid u) h1 w1"
    using step_consistent [OF assms, of h w ev] by auto
  then show ?case using Cons.IH [of h1 w1] Cons.prems(2) by (simp add: run_def)
qed

text \<open>As long as the hook is mounted, whatever calls, watch callbacks and resolutions have
  happened, the record of the driver exists exactly when the session is
  sharing.\<close>

lemma record_iff_sharing_while_mounted:
  assumes "user c = Some u" "Unmount \<notin> set evs"
  shows "recordExists (uid u) (snd (run c (Some initialHook, initialWorld) evs)) =
         active (fst (run c (Some initialHook, initialWorld) evs))"
proof -
  have "consistent (uid u) initialHook initialWorld"
    by (simp add: consistent_def initialHook_def initialWorld_def watching_iff)
  from run_consistent [OF assms(1) this assms(2)]
  show ?thesis by (auto simp: consistent_def recordExists_def active_def)
qed

subsection \<open>The claims about the session\<close>

text \<open>
  C1. A presence record for a driver exists exactly while the session is Active; it is
  created by the full-field write of a successful start and deleted on stop and on
  unmount. Evaluated on the code: after a successful start the unmount cancels the watch
  and issues no delete, so the session is gone and the record is still in the store;
  a stop after the same start deletes it.
\<close>

theorem unmount_leaves_presence_record:
  "fst (run capabilityD (Some initialHook, initialWorld) [Start envOk, Unmount]) = None \<and>
   recordExists ''driver-D'' (snd (run capabilityD (Some initialHook, initialWorld) [Start envOk, Unmount])) \<and>
   watches (snd (run capabilityD (Some initialHook, initialWorld) [Start envOk, Unmount])) = [] \<and>
   requests (snd (run capabilityD (Some initialHook, initialWorld) [Start envOk, Unmount])) =
     [GetCurrentPosition, SetDoc ''driver-D'', WatchPosition 1, ClearWatch 1] \<and>
   \<not> recordExists ''driver-D''
       (snd (run capabilityD (Some initialHook, initialWorld) [Start envOk, Stop WriteOk]))"
  by (simp add: session_defs example_defs recordExists_def Let_def)

text \<open>
  C2, as the code has it. While the watch is registered, every watch callback issues its
  merge write when it is delivered, whatever writes are still unresolved: the write is
  appended to the log and to the unresolved writes in the same step, and a write the
  store accepts replaces the record then. Over any sequence of watch callbacks and
  resolutions the merge writes are issued in the order the positions arrived, and the
  record is the result of applying the accepted writes in that order: it carries the
  position of the last accepted write, so no later position is overwritten by an earlier
  one.
\<close>

theorem watch_writes_issued_on_delivery:
  "user c = Some u \<and> watching h w \<longrightarrow>
     requests (snd (step c (Some h, w) (PositionDelivered pos res now)))
       = requests w @ [SetDocMerge (uid u) pos] \<and>
     pendingWrites (snd (step c (Some h, w) (PositionDelivered pos res now)))
       = pendingWrites w @ [res] \<and>
     ((\<forall>ev \<in> set evs. watchEvent ev) \<longrightarrow>
        mergeWrites (requests (snd (run c (Some h, w) evs))) = mergeWrites (requests w) @ deliveries evs) \<and>
     store (snd (step c (Some h, w) (PositionDelivered pos WriteOk now)))
       = (store w)(uid u \<mapsto> mergeUpdate (uid u) pos now (store w (uid u))) \<and>
     ((\<forall>ev \<in> set evs. watchEvent ev) \<longrightarrow>
        store (snd (run c (Some h, w) evs))
          = (store w)(uid u := applyWrites (uid u) evs (store w (uid u)))) \<and>
     ((\<forall>ev \<in> set (evs1 @ PositionDelivered p WriteOk t # evs2). watchEvent ev) \<and>
      (\<forall>ev \<in> set evs2. \<not> appliesWrite ev) \<longrightarrow>
        store (snd (run c (Some h, w) (evs1 @ PositionDelivered p WriteOk t # evs2))) (uid u)
          = Some (mergeUpdate (uid u) p t (applyWrites (uid u) evs1 (store w (uid u)))) \<and>
        map_option latitude
          (store (snd (run c (Some h, w) (evs1 @ PositionDelivered p WriteOk t # evs2))) (uid u))
          = Some (Some (coords_latitude p)) \<and>
        map_option longitude
          (store (snd (run c (Some h, w) (evs1 @ PositionDelivered p WriteOk t # evs2))) (uid u))
          = Some (Some (coords_longitude p)) \<and>
        map_option timestamp
          (store (snd (run c (Some h, w) (evs1 @ PositionDelivered p WriteOk t # evs2))) (uid u))
          = Some (Some t))"
proof (intro impI, elim conjE)
  assume u: "user c = Some u" and wt: "watching h w"
  have a: "(\<forall>ev \<in> set evs. watchEvent ev) \<longrightarrow>
        mergeWrites (requests (snd (run c (Some h, w) evs))) = mergeWrites (requests w) @ deliveries evs"
    using run_watch_events [OF u wt, of evs] by auto
  have b: "(\<forall>ev \<in> set evs. watchEvent ev) \<longrightarrow>
        store (snd (run c (Some h, w) evs))
          = (store w)(uid u := applyWrites (uid u) evs (store w (uid u)))"
    using run_watch_events_store [OF u wt, of evs] by blast
  have s1: "store (snd (step c (Some h, w) (PositionDelivered pos WriteOk now)))
       = (store w)(uid u \<mapsto> mergeUpdate (uid u) pos now (store w (uid u)))"
    unfolding step_position [OF u wt] by (simp add: updateDriverLocation_store)
  have l: "store (snd (run c (Some h, w) (evs1 @ PositionDelivered p WriteOk t # evs2))) (uid u)
          = Some (mergeUpdate (uid u) p t (applyWrites (uid u) evs1 (store w (uid u))))"
    if all: "\<forall>ev \<in> set (evs1 @ PositionDelivered p WriteOk t # evs2). watchEvent ev"
      and none: "\<forall>ev \<in> set evs2. \<not> appliesWrite ev"
  proof -
    have "store (snd (run c (Some h, w) (evs1 @ PositionDelivered p WriteOk t # evs2))) (uid u)
        = applyWrites (uid u) (evs1 @ PositionDelivered p WriteOk t # evs2) (store w (uid u))"
      using run_watch_events_store [OF u wt all] by simp
    also have "\<dots> = Some (mergeUpdate (uid u) p t (applyWrites (uid u) evs1 (store w (uid u))))"
      using applyWrites_none [OF none] by (simp add: applyWrites_append)
    finally show ?thesis .
  qed
  have c: "(\<forall>ev \<in> set (evs1 @ PositionDelivered p WriteOk t # evs2). watchEvent ev) \<and>
      (\<forall>ev \<in> set evs2. \<not> appliesWrite ev) \<longrightarrow>
        store (snd (run c (Some h, w) (evs1 @ PositionDelivered p WriteOk t # evs2))) (uid u)
          = Some (mergeUpdate (uid u) p t (applyWrites (uid u) evs1 (store w (uid u)))) \<and>
        map_option latitude
          (store (snd (run c (Some h, w) (evs1 @ PositionDelivered p WriteOk t # evs2))) (uid u))
          = Some (Some (coords_latitude p)) \<and>
        map_option longitude
          (store (snd (run c (Some h, w) (evs1 @ PositionDelivered p WriteOk t # evs2))) (uid u))
          = Some (Some (coords_longitude p)) \<and>
        map_option timestamp
          (store (snd (run c (Some h, w) (evs1 @ PositionDelivered p WriteOk t # evs2))) (uid u))
          = Some (Some t)"
    using l by (simp add: mergeUpdate_fields)
  have r: "requests (snd (step c (Some h, w) (PositionDelivered pos res now)))
       = requests w @ [SetDocMerge (uid u) pos] \<and>
     pendingWrites (snd (step c (Some h, w) (PositionDelivered pos res now)))
       = pendingWrites w @ [res]"
    unfolding step_position [OF u wt] by (simp add: updateDriverLocation_fields)
  from r a s1 b c
  show "requests (snd (step c (Some h, w) (PositionDelivered pos res now)))
       = requests w @ [SetDocMerge (uid u) pos] \<and>
     pendingWrites (snd (step c (Some h, w) (PositionDelivered pos res now)))
       = pendingWrites w @ [res] \<and>
     ((\<forall>ev \<in> set evs. watchEvent ev) \<longrightarrow>
        mergeWrites (requests (snd (run c (Some h, w) evs))) = mergeWrites (requests w) @ deliveries evs) \<and>
     store (snd (step c (Some h, w) (PositionDelivered pos WriteOk now)))
       = (store w)(uid u \<mapsto> mergeUpdate (uid u) pos now (store w (uid u))) \<and>
     ((\<forall>ev \<in> set evs. watchEvent ev) \<longrightarrow>
        store (snd (run c (Some h, w) evs))
          = (store w)(uid u := applyWrites (uid u) evs (store w (uid u)))) \<and>
     ((\<forall>ev \<in> set (evs1 @ PositionDelivered p WriteOk t # evs2). watchEvent ev) \<and>
      (\<forall>ev \<in> set evs2. \<not> appliesWrite ev) \<longrightarrow>
        store (snd (run c (Some h, w) (evs1 @ PositionDelivered p WriteOk t # evs2))) (uid u)
          = Some (mergeUpdate (uid u) p t (applyWrites (uid u) evs1 (store w (uid u)))) \<and>
        map_option latitude
          (store (snd (run c (Some h, w) (evs1 @ PositionDelivered p WriteOk t # evs2))) (uid u))
          = Some (Some (coords_latitude p)) \<and>
        map_option longitude
          (store (snd (run c (Some h, w) (evs1 @ PositionDelivered p WriteOk t # evs2))) (uid u))
          = Some (Some (coords_longitude p)) \<and>
        map_option timestamp
          (store (snd (run c (Some h, w) (evs1 @ PositionDelivered p WriteOk t # evs2))) (uid u))
          = Some (Some t))"
    by blast
qed

theorem watch_writes_issued_on_delivery_witness:
  "user capabilityD = Some driverD \<and> watching sharingHook sharingWorld \<and>
   requests (snd (step capabilityD (Some sharingHook, sharingWorld)
       (PositionDelivered positionP2 WriteOk (timeT 102)))) = [SetDocMerge ''driver-D'' positionP2] \<and>
   mergeWrites (requests (snd (run capabilityD (Some sharingHook, sharingWorld)
       [PositionDelivered positionP1 WriteOk (timeT 101),
        PositionDelivered positionP2 (WriteRejected ''unavailable'') (timeT 102),
        WriteResolved]))) = [positionP1, positionP2] \<and>
   map_option latitude (store (snd (run capabilityD (Some sharingHook, sharingWorld)
       ([PositionDelivered positionP1 WriteOk (timeT 101)] @
        PositionDelivered positionP2 WriteOk (timeT 102) # [WriteResolved]))) ''driver-D'')
     = Some (Some 42) \<and>
   map_option timestamp (store (snd (run capabilityD (Some sharingHook, sharingWorld)
       ([PositionDelivered positionP1 WriteOk (timeT 101)] @
        PositionDelivered positionP2 WriteOk (timeT 102) # [WriteResolved]))) ''driver-D'')
     = Some (Some (timeT 102))"
  using watch_writes_issued_on_delivery [where c = capabilityD and u = driverD and h = sharingHook
      and w = sharingWorld and pos = positionP2 and res = WriteOk and now = "timeT 102"
      and evs = "[PositionDelivered positionP1 WriteOk (timeT 101),
        PositionDelivered positionP2 (WriteRejected ''unavailable'') (timeT 102),
        WriteResolved]"
      and ?evs1.0 = "[PositionDelivered positionP1 WriteOk (timeT 101)]"
      and p = positionP2 and t = "timeT 102" and ?evs2.0 = "[WriteResolved]"]
  by (simp add: session_defs example_defs mergeUpdate_def Let_def)

text \<open>The claim as stated fails: after a start, two positions delivered in a row leave two
  merge writes issued and both unresolved; the second was not held back for the first.\<close>

theorem second_write_issued_while_first_unresolved:
  "pendingWrites (snd (run capabilityD (Some initialHook, initialWorld)
      [Start envOk, PositionDelivered positionP1 WriteOk (timeT 101),
       PositionDelivered positionP2 WriteOk (timeT 102)]))
     = [WriteOk, WriteOk] \<and>
   requests (snd (run capabilityD (Some initialHook, initialWorld)
      [Start envOk, PositionDelivered positionP1 WriteOk (timeT 101),
       PositionDelivered positionP2 WriteOk (timeT 102)]))
     = [GetCurrentPosition, SetDoc ''driver-D'', WatchPosition 1,
        SetDocMerge ''driver-D'' positionP1, SetDocMerge ''driver-D'' positionP2]"
  by (simp add: session_defs example_defs Let_def)

text \<open>
  C3. With a capability pair other than (true, true), start fails at once: the result is
  a failure, the error reads that only verified drivers can share, no position request
  and no store write is made, and nothing else of the session or the world changes.
\<close>

theorem start_without_capability_denied:
  "\<not> (isDriver c \<and> isVerified c) \<longrightarrow>
     startSharing c env h w =
       (Failed None, h\<lparr> error := ''Only verified drivers can share location'' \<rparr>, w)"
  by (simp add: startSharing_def)

theorem start_without_capability_denied_witness:
  "startSharing (capabilityD\<lparr> isDriver := False \<rparr>) envOk initialHook initialWorld =
     (Failed None, initialHook\<lparr> error := ''Only verified drivers can share location'' \<rparr>, initialWorld) \<and>
   startSharing (capabilityD\<lparr> isVerified := False \<rparr>) envOk sharingHook sharingWorld =
     (Failed None, sharingHook\<lparr> error := ''Only verified drivers can share location'' \<rparr>, sharingWorld) \<and>
   requests initialWorld = []"
  using start_without_capability_denied [of "capabilityD\<lparr> isDriver := False \<rparr>" envOk initialHook initialWorld]
    start_without_capability_denied [of "capabilityD\<lparr> isVerified := False \<rparr>" envOk sharingHook sharingWorld]
  by (simp add: capabilityD_def initialWorld_def)

text \<open>
  C4. A permission-denied error on the watch of an Active session stops the session (the
  watch is cancelled, the record deleted) and leaves it in the error state with the
  error shown. Evaluated on the code: the handler sets the error and then calls
  \<^verbatim>\<open>stopSharing\<close>, which clears it; with a successful delete the session ends not sharing
  and with an empty error.
\<close>

theorem watch_permission_denied_ends_without_error:
  "map_option error (fst (run capabilityD (Some initialHook, initialWorld)
      [Start envOk, ErrorDelivered PERMISSION_DENIED WriteOk])) = Some [] \<and>
   map_option isSharing (fst (run capabilityD (Some initialHook, initialWorld)
      [Start envOk, ErrorDelivered PERMISSION_DENIED WriteOk])) = Some False \<and>
   watches (snd (run capabilityD (Some initialHook, initialWorld)
      [Start envOk, ErrorDelivered PERMISSION_DENIED WriteOk])) = [] \<and>
   \<not> recordExists ''driver-D'' (snd (run capabilityD (Some initialHook, initialWorld)
      [Start envOk, ErrorDelivered PERMISSION_DENIED WriteOk]))"
  by (simp add: session_defs example_defs recordExists_def Let_def PERMISSION_DENIED_def)

text \<open>
  C5. When a merge write of an Active session fails, the session stays as it is: the
  resolution changes the error string and nothing else (not the sharing flag, the watch
  registration or the current position, and the store and the watches are untouched by
  the failed write). No retry is scheduled; the next watch callback issues its own write
  at once. The current position is the delivered one, which the callback stored before
  it issued the write.
\<close>

theorem failed_write_changes_only_error:
  "onWriteResolved (WriteRejected msg) h = h\<lparr> error := ''Failed to update location'' \<rparr> \<and>
   (pendingWrites w = WriteRejected msg # rest \<longrightarrow>
      step c (Some h, w) WriteResolved =
        (Some (h\<lparr> error := ''Failed to update location'' \<rparr>), w\<lparr> pendingWrites := rest \<rparr>)) \<and>
   store (updateDriverLocation i pos (WriteRejected msg) now w) = store w \<and>
   watches (updateDriverLocation i pos (WriteRejected msg) now w) = watches w \<and>
   (user c = Some u \<and> watching h w \<longrightarrow>
      requests (snd (step c (Some (onWriteResolved (WriteRejected msg) h), w)
          (PositionDelivered pos res now)))
        = requests w @ [SetDocMerge (uid u) pos]) \<and>
   (user c = Some u \<and> watching h w \<and> pendingWrites w = [] \<longrightarrow>
      fst (run c (Some h, w) [PositionDelivered pos (WriteRejected msg) now, WriteResolved]) =
        Some (h\<lparr> currentPosition := Some pos, positionAccuracy := Some (coords_accuracy pos),
                  error := ''Failed to update location'' \<rparr>))"
proof -
  have r: "onWriteResolved (WriteRejected msg) h = h\<lparr> error := ''Failed to update location'' \<rparr>"
    by (simp add: onWriteResolved_def updateResult_def)
  have w': "watching (h\<lparr> error := e \<rparr>) w = watching h w" for e
    by (simp add: watching_iff)
  have n: "user c = Some u \<and> watching h w \<longrightarrow>
      requests (snd (step c (Some (onWriteResolved (WriteRejected msg) h), w)
          (PositionDelivered pos res now)))
        = requests w @ [SetDocMerge (uid u) pos]"
    by (simp add: r w' onPosition_def updateDriverLocation_fields)
  have s: "store (updateDriverLocation i pos (WriteRejected msg) now w) = store w"
    by (simp add: updateDriverLocation_def call_def Let_def)
  have cb: "user c = Some u \<and> watching h w \<and> pendingWrites w = [] \<longrightarrow>
      fst (run c (Some h, w) [PositionDelivered pos (WriteRejected msg) now, WriteResolved]) =
        Some (h\<lparr> currentPosition := Some pos, positionAccuracy := Some (coords_accuracy pos),
                  error := ''Failed to update location'' \<rparr>)"
    by (simp add: run_def onPosition_def updateDriverLocation_fields onWriteResolved_def updateResult_def)
  show ?thesis using r n s cb by (simp add: updateDriverLocation_fields)
qed

theorem failed_write_changes_only_error_witness:
  "step capabilityD (Some sharingHook, sharingWorld\<lparr> pendingWrites := [WriteRejected ''unavailable''] \<rparr>)
       WriteResolved =
     (Some (sharingHook\<lparr> error := ''Failed to update location'' \<rparr>), sharingWorld) \<and>
   requests (snd (step capabilityD
       (Some (onWriteResolved (WriteRejected ''unavailable'') sharingHook), sharingWorld)
       (PositionDelivered positionP2 WriteOk (timeT 102)))) = [SetDocMerge ''driver-D'' positionP2]"
  using failed_write_changes_only_error [of "''unavailable''" sharingHook
      "sharingWorld\<lparr> pendingWrites := [WriteRejected ''unavailable''] \<rparr>" "[]" capabilityD
      "''driver-D''" positionP2 "timeT 102" driverD WriteOk]
    failed_write_changes_only_error [of "''unavailable''" sharingHook sharingWorld "[]" capabilityD
      "''driver-D''" positionP2 "timeT 102" driverD WriteOk]
  by (simp add: capabilityD_def driverD_def sharingHook_def sharingWorld_def initialHook_def
      initialWorld_def watching_def)

end
